theory Spec2Isabelle
  imports Main "HOL-Library.AList" "HOL-Library.Char_ord" "HOL-Library.List_Lexorder"
    "HOL-Library.Multiset"
begin

section \<open>Python values used by load\_data.py\<close>

text \<open>
  A Python \<open>str\<close> is modelled as a \<open>string\<close>; a \<open>char\<close> stands for the code point
  of the same number (U+0000 to U+00FF). The exceptions the modelled code can raise are
  values of \<open>error\<close>; \<open>OSError\<close> carries the path that could not be opened (or whose image
  could not be decoded) and stands for any of its subclasses that \<open>open\<close> may raise.
\<close>

datatype error = IndexError | KeyError | FileNotFoundError | OSError string | ValueError

abbreviation SP :: char where "SP \<equiv> CHR '' ''"
abbreviation LF :: char where "LF \<equiv> CHR 0x0A"
abbreviation CR :: char where "CR \<equiv> CHR 0x0D"

text \<open>\<open>str.isspace\<close> on one code point below 256: TAB, LF, VT, FF, CR, FS, GS, RS, US,
  space, NEL and the no-break space.\<close>

definition py_isspace :: "char \<Rightarrow> bool" where
  "py_isspace c = ((of_char c :: nat) \<in> {9, 10, 11, 12, 13, 28, 29, 30, 31, 32, 133, 160})"

text \<open>\<open>s.strip()\<close>: whitespace is removed at both ends.\<close>

definition py_strip :: "string \<Rightarrow> string" where
  "py_strip s = rev (dropWhile py_isspace (rev (dropWhile py_isspace s)))"

text \<open>\<open>s.rstrip()\<close>: whitespace is removed at the right end only.\<close>

definition py_rstrip :: "string \<Rightarrow> string" where
  "py_rstrip s = rev (dropWhile py_isspace (rev s))"

text \<open>\<open>s.split(sep)\<close> for a one-character separator: the string is cut at every occurrence
  of \<open>sep\<close>, empty pieces are kept, and the result has at least one piece.\<close>

fun py_split :: "char \<Rightarrow> string \<Rightarrow> string list" where
  "py_split sep [] = [[]]"
| "py_split sep (c # cs) =
     (if c = sep then [] # py_split sep cs
      else (case py_split sep cs of [] \<Rightarrow> [[c]] | p # ps \<Rightarrow> (c # p) # ps))"

text \<open>\<open>xs[i]\<close> on a Python list: an index from \<open>-len(xs)\<close> to \<open>-1\<close> counts from the
  end, and anything outside \<open>-len(xs) .. len(xs) - 1\<close> raises \<open>IndexError\<close>.\<close>

definition py_index :: "'a list \<Rightarrow> int \<Rightarrow> error + 'a" where
  "py_index xs i =
     (if 0 \<le> i \<and> i < int (length xs) then Inr (xs ! nat i)
      else if i < 0 \<and> - int (length xs) \<le> i then Inr (xs ! nat (int (length xs) + i))
      else Inl IndexError)"

text \<open>A \<open>dict\<close> keeps its entries in insertion order; storing under a key that is present
  replaces the value in place (\<open>AList.update\<close>). \<open>d[k]\<close> raises \<open>KeyError\<close> on a missing key.\<close>

type_synonym ('k, 'v) dict = "('k \<times> 'v) list"

definition dict_getitem :: "('k, 'v) dict \<Rightarrow> 'k \<Rightarrow> error + 'v" where
  "dict_getitem d k = (case map_of d k of None \<Rightarrow> Inl KeyError | Some v \<Rightarrow> Inr v)"

text \<open>\<open>list(set(xs))\<close>: a Python set is a hash table that is iterated in slot order, and the
  slot of a string depends on the hash seed of the process. The parameter \<open>slot\<close> gives the
  position of each string in the table; elements are listed by increasing slot, each once.
  Every order of the distinct elements arises from some \<open>slot\<close>.\<close>

definition py_list_of_set :: "(string \<Rightarrow> nat) \<Rightarrow> string list \<Rightarrow> string list" where
  "py_list_of_set slot xs = sort_key slot (remdups xs)"

section \<open>Text files\<close>

text \<open>The file system maps a file name to the text of the file. Text is written and read
  with Python's default newline handling on a POSIX system: a written \<open>\n\<close> is stored as it
  is, and on reading \<open>\r\n\<close> and a lone \<open>\r\<close> become \<open>\n\<close>.\<close>

type_synonym filesystem = "string \<rightharpoonup> string"

fun universal_newlines :: "string \<Rightarrow> string" where
  "universal_newlines [] = []"
| "universal_newlines [c] = (if c = CR then [LF] else [c])"
| "universal_newlines (c # d # cs) =
     (if c = CR \<and> d = LF then LF # universal_newlines cs
      else if c = CR then LF # universal_newlines (d # cs)
      else c # universal_newlines (d # cs))"

text \<open>\<open>for line in file\<close>: every line keeps its final \<open>\n\<close>; a last line without one is
  still a line, and an empty text has no line.\<close>

fun file_lines :: "string \<Rightarrow> string list" where
  "file_lines [] = []"
| "file_lines (c # cs) =
     (if c = LF then [LF] # file_lines cs
      else (case file_lines cs of [] \<Rightarrow> [[c]] | l # ls \<Rightarrow> (c # l) # ls))"

definition read_lines :: "string \<Rightarrow> string list" where
  "read_lines text = file_lines (universal_newlines text)"

section \<open>ImageDataset\<close>

record ('img, 'tensor) ImageDataset =
  root_dir :: string
  transform :: "('img \<Rightarrow> 'tensor) option"
  training_file :: string
  validation_file :: string
  test_file :: string
  train :: bool
  class_to_idx :: "(string, nat) dict"
  image_filenames :: "string list"
  labels :: "string list"

text \<open>\<open>convert_label_to_ix\<close>: the distinct labels, in the order the set yields them, are
  numbered from 0 by a dict comprehension over \<open>enumerate(classes)\<close>.\<close>

definition convert_label_to_ix :: "(string \<Rightarrow> nat) \<Rightarrow> string list \<Rightarrow> (string, nat) dict" where
  "convert_label_to_ix slot label_list =
     (let classes = py_list_of_set slot label_list
      in fold (\<lambda>(idx, class_name) d. AList.update class_name idx d) (enumerate 0 classes) [])"

text \<open>The body of the loop over the lines of the manifest, on one line:
  \<open>parts = line.split(" ")\<close>, then \<open>parts[0]\<close> and \<open>parts[1].strip()\<close>.\<close>

definition parse_line :: "string \<Rightarrow> error + (string \<times> string)" where
  "parse_line line =
     (let parts = py_split SP line
      in case py_index parts 0 of
           Inl e \<Rightarrow> Inl e
         | Inr filename \<Rightarrow>
             (case py_index parts 1 of
                Inl e \<Rightarrow> Inl e
              | Inr part1 \<Rightarrow> Inr (filename, py_strip part1)))"

text \<open>The loop itself: both lists grow by one entry per line, and the first line that
  cannot be parsed ends the construction with its exception.\<close>

fun read_manifest :: "string list \<Rightarrow> string list \<times> string list \<Rightarrow> error + (string list \<times> string list)" where
  "read_manifest [] acc = Inr acc"
| "read_manifest (line # rest) (filenames, labs) =
     (case parse_line line of
        Inl e \<Rightarrow> Inl e
      | Inr (filename, lab) \<Rightarrow> read_manifest rest (filenames @ [filename], labs @ [lab]))"

text \<open>\<open>ImageDataset.__init__\<close>. The file that is opened is \<open>self.training_file\<close>, whatever
  \<open>root_dir\<close> and \<open>train\<close> are. The two \<open>print\<close> calls are left out.\<close>

definition ImageDataset_init ::
  "filesystem \<Rightarrow> (string \<Rightarrow> nat) \<Rightarrow> string \<Rightarrow> bool \<Rightarrow> ('img \<Rightarrow> 'tensor) option
     \<Rightarrow> error + ('img, 'tensor) ImageDataset" where
  "ImageDataset_init fs slot root train_arg transform_arg =
     (let tf = ''train_set.txt''
      in case fs tf of
           None \<Rightarrow> Inl FileNotFoundError
         | Some text \<Rightarrow>
             (case read_manifest (read_lines text) ([], []) of
                Inl e \<Rightarrow> Inl e
              | Inr (filenames, labs) \<Rightarrow>
                  Inr \<lparr> root_dir = root, transform = transform_arg, training_file = tf,
                        validation_file = ''validation_set.txt'', test_file = ''test_set.txt'',
                        train = train_arg, class_to_idx = convert_label_to_ix slot labs,
                        image_filenames = filenames, labels = labs \<rparr>))"

text \<open>\<open>__len__\<close>.\<close>

definition ImageDataset_len :: "('img, 'tensor) ImageDataset \<Rightarrow> int" where
  "ImageDataset_len self = int (length (labels self))"

text \<open>The collaborators of \<open>__getitem__\<close>: \<open>image_open path\<close> is the outcome of
  \<open>Image.open(path).convert('RGB')\<close>, and \<open>to_tensor\<close> is \<open>transforms.ToTensor()\<close>.\<close>

record ('img, 'tensor) collaborators =
  image_open :: "string \<Rightarrow> error + 'img"
  to_tensor :: "'img \<Rightarrow> 'tensor"

record 'tensor sample =
  image' :: 'tensor
  label :: nat
  filepath :: string

text \<open>The state a call of \<open>__getitem__\<close> runs in: the dataset object and the list of the
  paths handed to \<open>Image.open\<close> so far.\<close>

record ('img, 'tensor) world =
  dataset :: "('img, 'tensor) ImageDataset"
  opened :: "string list"

text \<open>\<open>__getitem__\<close>, statement by statement; the call returns its result and the state it
  leaves. No statement assigns to a field of \<open>self\<close>.\<close>

definition ImageDataset_getitem ::
  "('img, 'tensor) collaborators \<Rightarrow> ('img, 'tensor) world \<Rightarrow> int
     \<Rightarrow> (error + 'tensor sample) \<times> ('img, 'tensor) world" where
  "ImageDataset_getitem env w index =
     (let self = dataset w
      in case py_index (image_filenames self) index of
           Inl e \<Rightarrow> (Inl e, w)
         | Inr img_path \<Rightarrow>
             (let w1 = w\<lparr>opened := opened w @ [img_path]\<rparr>
              in case image_open env img_path of
                   Inl e \<Rightarrow> (Inl e, w1)
                 | Inr img0 \<Rightarrow>
                     (let img = (case transform self of
                                   Some t \<Rightarrow> t img0
                                 | None \<Rightarrow> to_tensor env img0)
                      in case py_index (labels self) index of
                           Inl e \<Rightarrow> (Inl e, w1)
                         | Inr lab \<Rightarrow>
                             (case dict_getitem (class_to_idx self) lab of
                                Inl e \<Rightarrow> (Inl e, w1)
                              | Inr ix \<Rightarrow>
                                  (case py_index (image_filenames self) index of
                                     Inl e \<Rightarrow> (Inl e, w1)
                                   | Inr fp \<Rightarrow>
                                       (Inr \<lparr> image' = img, label = ix, filepath = fp \<rparr>, w1))))))"

section \<open>DataSplitter\<close>

text \<open>\<open>open(file_path, "w")\<close>: the name must have a last component, and when it names a
  directory before that component, the directory must exist; \<open>dir_exists\<close> says which
  directories do. The current directory exists. \<open>parent_dir\<close> is the name up to and with
  its last slash, \<open>base_name\<close> what follows it. Permissions, and a directory that already
  bears the name of the file, are outside the model.\<close>

definition parent_dir :: "string \<Rightarrow> string" where
  "parent_dir p = rev (dropWhile (\<lambda>c. c \<noteq> CHR ''/'') (rev p))"

definition base_name :: "string \<Rightarrow> string" where
  "base_name p = rev (takeWhile (\<lambda>c. c \<noteq> CHR ''/'') (rev p))"

definition open_w :: "(string \<Rightarrow> bool) \<Rightarrow> string \<Rightarrow> error option" where
  "open_w dir_exists p =
     (if base_name p = [] then Some (OSError p)
      else if parent_dir p \<noteq> [] \<and> \<not> dir_exists (parent_dir p) then Some (OSError p)
      else None)"

text \<open>\<open>save_file_paths\<close>: when \<open>open(file_path, "w")\<close> raises, nothing is written. Otherwise
  the file starts empty, and every pair of \<open>zip(file_paths, labels)\<close> is written as
  \<open>f"{path} {label}\n"\<close>. The call returns its outcome and the file system it leaves.\<close>

fun write_samples :: "string \<Rightarrow> (string \<times> string) list \<Rightarrow> string" where
  "write_samples buf [] = buf"
| "write_samples buf ((path, lab) # rest) = write_samples (buf @ path @ [SP] @ lab @ [LF]) rest"

definition save_file_paths ::
  "(string \<Rightarrow> bool) \<Rightarrow> filesystem \<Rightarrow> string list \<Rightarrow> string list \<Rightarrow> string
     \<Rightarrow> (error + unit) \<times> filesystem" where
  "save_file_paths dir_exists fs file_paths labs file_path =
     (case open_w dir_exists file_path of
        Some e \<Rightarrow> (Inl e, fs)
      | None \<Rightarrow> (Inr (), fs(file_path \<mapsto> write_samples [] (zip file_paths labs))))"








section \<open>Notions used in the statements\<close>

text \<open>The text of a line before its first space, and the text between its first and its
  second space (up to the end of the line when there is no second space).\<close>

definition first_field :: "string \<Rightarrow> string" where
  "first_field line = takeWhile (\<lambda>c. c \<noteq> SP) line"

definition second_field :: "string \<Rightarrow> string" where
  "second_field line = takeWhile (\<lambda>c. c \<noteq> SP) (tl (dropWhile (\<lambda>c. c \<noteq> SP) line))"

text \<open>The specification's reading of a manifest line: cut at the first space only, the
  whole remainder right-trimmed.\<close>

definition spec_split_first_space :: "string \<Rightarrow> string \<times> string" where
  "spec_split_first_space line =
     (takeWhile (\<lambda>c. c \<noteq> SP) line, py_rstrip (tl (dropWhile (\<lambda>c. c \<noteq> SP) line)))"

text \<open>The manifest line of one sample.\<close>

definition manifest_line :: "string \<times> string \<Rightarrow> string" where
  "manifest_line s = fst s @ [SP] @ snd s @ [LF]"

text \<open>The specification's label index: the distinct labels in lexicographic order, numbered
  from 0.\<close>

definition spec_sorted_label_index :: "string list \<Rightarrow> (string, nat) dict" where
  "spec_sorted_label_index label_list =
     (let classes = sort (remdups label_list) in zip classes [0 ..< length classes])"

text \<open>The samples a dataset holds, as pairs.\<close>

definition samples_of :: "('img, 'tensor) ImageDataset \<Rightarrow> (string \<times> string) list" where
  "samples_of ds = zip (image_filenames ds) (labels ds)"

text \<open>A path that a manifest line carries unchanged has no space and no line break; a label
  moreover neither begins nor ends with whitespace.\<close>

definition plain_path :: "string \<Rightarrow> bool" where
  "plain_path p = (SP \<notin> set p \<and> LF \<notin> set p \<and> CR \<notin> set p)"

definition plain_label :: "string \<Rightarrow> bool" where
  "plain_label l = (SP \<notin> set l \<and> LF \<notin> set l \<and> CR \<notin> set l \<and> py_strip l = l)"

text \<open>The paths and the labels of a manifest, line by line.\<close>

definition manifest_paths :: "string \<Rightarrow> string list" where
  "manifest_paths text = map first_field (read_lines text)"

definition manifest_labels :: "string \<Rightarrow> string list" where
  "manifest_labels text = map (\<lambda>l. py_strip (second_field l)) (read_lines text)"

text \<open>Three ways a set of labels may be laid out: every label in the same slot (the labels
  then come in the order \<open>remdups\<close> leaves them), the label \<open>a\<close> behind all others, and
  the labels by the code of their first character.\<close>

definition slot_zero :: "string \<Rightarrow> nat" where
  "slot_zero s = 0"

definition slot_reversed :: "string \<Rightarrow> nat" where
  "slot_reversed s = (if s = ''a'' then 1 else 0)"

definition slot_first_char :: "string \<Rightarrow> nat" where
  "slot_first_char s = (case s of [] \<Rightarrow> 0 | c # _ \<Rightarrow> of_char c)"

text \<open>A small manifest, the dataset the constructor builds from it, and collaborators under
  which every path opens (the image of a path is the path itself).\<close>

definition example_fs :: filesystem where
  "example_fs = [''train_set.txt'' \<mapsto> ''a.png cat'' @ [LF] @ ''b.png dog'' @ [LF]]"

definition example_dataset :: "(string, string) ImageDataset" where
  "example_dataset =
     \<lparr> root_dir = ''Images/'', transform = None, training_file = ''train_set.txt'',
       validation_file = ''validation_set.txt'', test_file = ''test_set.txt'', train = True,
       class_to_idx = [(''cat'', 0), (''dog'', 1)], image_filenames = [''a.png'', ''b.png''],
       labels = [''cat'', ''dog''] \<rparr>"

definition example_collaborators :: "(string, string) collaborators" where
  "example_collaborators = \<lparr> image_open = Inr, to_tensor = id \<rparr>"

text \<open>An environment without any directory besides the current one.\<close>

definition no_dirs :: "string \<Rightarrow> bool" where
  "no_dirs d = False"




section \<open>Splitting strings and parsing the manifest\<close>

lemma py_split_not_Nil: "py_split sep s \<noteq> []"
  by (induction s) (auto split: list.splits)

lemma py_split_no_sep: "sep \<notin> set s \<Longrightarrow> py_split sep s = [s]"
  by (induction s) auto

lemma py_split_unfold:
  "sep \<in> set s \<Longrightarrow>
   py_split sep s = takeWhile (\<lambda>c. c \<noteq> sep) s # py_split sep (tl (dropWhile (\<lambda>c. c \<noteq> sep) s))"
proof (induction s)
  case Nil
  then show ?case by simp
next
  case (Cons c cs)
  show ?case
  proof (cases "c = sep")
    case True
    then show ?thesis by simp
  next
    case False
    with Cons.prems have "sep \<in> set cs" by simp
    from Cons.IH [OF this] False show ?thesis by simp
  qed
qed

lemma takeWhile_no_sep: "sep \<notin> set s \<Longrightarrow> takeWhile (\<lambda>c. c \<noteq> sep) s = s"
  by (induction s) auto

lemma py_split_hd: "hd (py_split sep s) = takeWhile (\<lambda>c. c \<noteq> sep) s"
  by (cases "sep \<in> set s") (simp_all add: py_split_unfold py_split_no_sep takeWhile_no_sep)

lemma py_split_second:
  assumes "sep \<in> set s"
  shows "\<exists>ps. py_split sep s = takeWhile (\<lambda>c. c \<noteq> sep) s
            # takeWhile (\<lambda>c. c \<noteq> sep) (tl (dropWhile (\<lambda>c. c \<noteq> sep) s)) # ps"
proof -
  let ?r = "tl (dropWhile (\<lambda>c. c \<noteq> sep) s)"
  obtain q qs where q: "py_split sep ?r = q # qs"
    using py_split_not_Nil [of sep ?r] by (cases "py_split sep ?r") auto
  have "hd (py_split sep ?r) = takeWhile (\<lambda>c. c \<noteq> sep) ?r" by (rule py_split_hd)
  with q have "q = takeWhile (\<lambda>c. c \<noteq> sep) ?r" by simp
  with q py_split_unfold [OF assms] show ?thesis by simp
qed

lemma parse_line_eq:
  "parse_line line =
     (if SP \<in> set line then Inr (first_field line, py_strip (second_field line))
      else Inl IndexError)"
proof (cases "SP \<in> set line")
  case True
  from py_split_second [OF True] obtain ps where
    "py_split SP line = first_field line # second_field line # ps"
    unfolding first_field_def second_field_def by blast
  with True show ?thesis by (simp add: parse_line_def py_index_def)
next
  case False
  then show ?thesis by (simp add: parse_line_def py_index_def py_split_no_sep)
qed

lemma read_manifest_eq:
  "read_manifest lines (fa, la) =
     (if \<forall>l \<in> set lines. SP \<in> set l
      then Inr (fa @ map first_field lines, la @ map (\<lambda>l. py_strip (second_field l)) lines)
      else Inl IndexError)"
proof (induction lines arbitrary: fa la)
  case Nil
  show ?case by simp
next
  case (Cons l ls)
  show ?case
  proof (cases "SP \<in> set l")
    case True
    then show ?thesis by (simp add: parse_line_eq Cons.IH)
  next
    case False
    then show ?thesis by (simp add: parse_line_eq)
  qed
qed

section \<open>What the constructor returns\<close>

lemma init_Inr:
  fixes transform_arg :: "('img \<Rightarrow> 'tensor) option"
  assumes "ImageDataset_init fs slot root train_arg transform_arg = Inr ds"
  shows "\<exists>text. fs ''train_set.txt'' = Some text
           \<and> (\<forall>l \<in> set (read_lines text). SP \<in> set l)
           \<and> image_filenames ds = map first_field (read_lines text)
           \<and> labels ds = map (\<lambda>l. py_strip (second_field l)) (read_lines text)
           \<and> class_to_idx ds = convert_label_to_ix slot (labels ds)
           \<and> transform ds = transform_arg"
  using assms
  by (auto simp: ImageDataset_init_def Let_def read_manifest_eq split: option.splits if_splits)

lemma init_lengths:
  fixes transform_arg :: "('img \<Rightarrow> 'tensor) option"
  assumes "ImageDataset_init fs slot root train_arg transform_arg = Inr ds"
  shows "length (image_filenames ds) = length (labels ds)"
  using init_Inr [OF assms] by auto

lemma example_init:
  "ImageDataset_init example_fs slot_zero ''Images/'' True None = Inr example_dataset"
  by (simp add: ImageDataset_init_def example_fs_def example_dataset_def read_lines_def
      parse_line_def py_index_def py_strip_def py_isspace_def convert_label_to_ix_def
      py_list_of_set_def slot_zero_def enumerate_eq_zip)

lemma example_manifest:
  "example_fs ''train_set.txt'' = Some (''a.png cat'' @ [LF] @ ''b.png dog'' @ [LF])"
  by (simp add: example_fs_def)

lemma init_Inr_manifest:
  fixes transform_arg :: "('img \<Rightarrow> 'tensor) option"
  assumes "ImageDataset_init fs slot root train_arg transform_arg = Inr ds"
      and "fs ''train_set.txt'' = Some text"
  shows "image_filenames ds = manifest_paths text"
    and "labels ds = manifest_labels text"
    and "class_to_idx ds = convert_label_to_ix slot (manifest_labels text)"
    and "transform ds = transform_arg"
  using init_Inr [OF assms(1)] assms(2) by (auto simp: manifest_labels_def manifest_paths_def)

lemma example_manifest_labels:
  "manifest_labels (''a.png cat'' @ [LF] @ ''b.png dog'' @ [LF]) = [''cat'', ''dog'']"
  by (simp add: manifest_labels_def read_lines_def second_field_def py_strip_def py_isspace_def)

lemma example_manifest_paths:
  "manifest_paths (''a.png cat'' @ [LF] @ ''b.png dog'' @ [LF]) = [''a.png'', ''b.png'']"
  by (simp add: manifest_paths_def read_lines_def first_field_def)

section \<open>Parsing one manifest line\<close>

text \<open>
  C3, as the specification states it, fails: on the line \<open>a b c\<close> the loop body stores
  the label \<open>b\<close>, where a cut at the first space only would give \<open>b c\<close>. The source cuts
  at every space and keeps the second piece.
\<close>

theorem parse_line_not_first_space_split:
  "SP \<in> set (''a b c'' @ [LF]) \<and>
   parse_line (''a b c'' @ [LF]) = Inr (''a'', ''b'') \<and>
   spec_split_first_space (''a b c'' @ [LF]) = (''a'', ''b c'') \<and>
   parse_line (''a b c'' @ [LF]) \<noteq> Inr (spec_split_first_space (''a b c'' @ [LF]))"
  by (simp add: parse_line_def py_index_def py_strip_def py_rstrip_def py_isspace_def
      spec_split_first_space_def)

text \<open>
  C3 (amended): for every manifest line that contains a space, the path is the text before the
  first space and the label is the text between the first and the second space (up to the
  end of the line when there is no second space), with whitespace removed at both ends.
\<close>

theorem parse_line_fields:
  "SP \<in> set line \<Longrightarrow> parse_line line = Inr (first_field line, py_strip (second_field line))"
  by (simp add: parse_line_eq)

theorem parse_line_fields_witness:
  "SP \<in> set (''img/1.jpg cat'' @ [LF]) \<and>
   parse_line (''img/1.jpg cat'' @ [LF]) = Inr (''img/1.jpg'', ''cat'')"
  using parse_line_fields [of "''img/1.jpg cat'' @ [LF]"]
  by (simp add: first_field_def second_field_def py_strip_def py_isspace_def)

section \<open>When the constructor fails\<close>

text \<open>
  C7: with the manifest present, the constructor fails exactly when some line of it has no
  space, and the failure is then the \<open>IndexError\<close> of \<open>parts[1]\<close> (the parse error of the
  specification); when every line has a space it returns a dataset.
\<close>

theorem load_fails_iff_line_without_space:
  fixes transform_arg :: "('img \<Rightarrow> 'tensor) option"
  assumes "fs ''train_set.txt'' = Some text"
  shows "(ImageDataset_init fs slot root train_arg transform_arg = Inl IndexError
            \<longleftrightarrow> (\<exists>line \<in> set (read_lines text). SP \<notin> set line))
       \<and> ((\<exists>e. ImageDataset_init fs slot root train_arg transform_arg = Inl e)
            \<longleftrightarrow> (\<exists>line \<in> set (read_lines text). SP \<notin> set line))
       \<and> ((\<forall>line \<in> set (read_lines text). SP \<in> set line)
            \<longrightarrow> (\<exists>ds. ImageDataset_init fs slot root train_arg transform_arg = Inr ds))"
  using assms by (auto simp: ImageDataset_init_def read_manifest_eq)

theorem load_fails_iff_line_without_space_witness:
  "ImageDataset_init (example_fs(''train_set.txt'' \<mapsto> ''a.png cat'' @ [LF] @ ''b.png'' @ [LF]))
      slot_zero ''Images/'' True (None :: (string \<Rightarrow> string) option) = Inl IndexError
   \<and> ImageDataset_init example_fs slot_zero ''Images/'' True None = Inr example_dataset"
  using load_fails_iff_line_without_space
          [of "example_fs(''train_set.txt'' \<mapsto> ''a.png cat'' @ [LF] @ ''b.png'' @ [LF])"
              "''a.png cat'' @ [LF] @ ''b.png'' @ [LF]" slot_zero "''Images/''" True
              "None :: (string \<Rightarrow> string) option"]
        load_fails_iff_line_without_space
          [of example_fs "''a.png cat'' @ [LF] @ ''b.png dog'' @ [LF]" slot_zero "''Images/''" True
              "None :: (string \<Rightarrow> string) option"]
        example_init example_manifest
  by (simp add: read_lines_def)

section \<open>Writing a manifest and reading it back\<close>

lemma write_samples_eq: "write_samples buf xs = buf @ concat (map manifest_line xs)"
  by (induction buf xs rule: write_samples.induct) (simp_all add: manifest_line_def)

lemma universal_newlines_id: "CR \<notin> set s \<Longrightarrow> universal_newlines s = s"
  by (induction s rule: universal_newlines.induct) auto

lemma file_lines_line:
  "LF \<notin> set b \<Longrightarrow> file_lines (b @ LF # rest) = (b @ [LF]) # file_lines rest"
  by (induction b) auto

lemma file_lines_manifest:
  "\<forall>s \<in> set xs. LF \<notin> set (fst s) \<and> LF \<notin> set (snd s) \<Longrightarrow>
   file_lines (concat (map manifest_line xs)) = map manifest_line xs"
proof (induction xs)
  case Nil
  show ?case by simp
next
  case (Cons x xs)
  let ?b = "fst x @ [SP] @ snd x"
  have b: "LF \<notin> set ?b" using Cons.prems by simp
  have m: "manifest_line x = ?b @ [LF]" by (simp add: manifest_line_def)
  have "file_lines (concat (map manifest_line (x # xs)))
          = file_lines (?b @ LF # concat (map manifest_line xs))"
    by (simp only: m list.map concat.simps append_assoc append_Cons append_Nil)
  also have "\<dots> = (?b @ [LF]) # file_lines (concat (map manifest_line xs))"
    by (rule file_lines_line [OF b])
  also have "\<dots> = manifest_line x # map manifest_line xs"
  proof -
    have "\<forall>s \<in> set xs. LF \<notin> set (fst s) \<and> LF \<notin> set (snd s)" using Cons.prems by simp
    from Cons.IH [OF this] show ?thesis by (simp only: m)
  qed
  finally show ?case by simp
qed

lemma first_field_manifest_line: "SP \<notin> set p \<Longrightarrow> first_field (manifest_line (p, l)) = p"
  by (simp add: first_field_def manifest_line_def takeWhile_append)

lemma takeWhile_no_sep': "sep \<notin> set s \<Longrightarrow> takeWhile (\<lambda>c. c \<noteq> sep) (s @ sep # r) = s"
  by (induction s) auto

lemma dropWhile_no_sep: "sep \<notin> set s \<Longrightarrow> dropWhile (\<lambda>c. c \<noteq> sep) (s @ sep # r) = sep # r"
  by (induction s) auto

lemma second_field_manifest_line:
  "SP \<notin> set p \<Longrightarrow> SP \<notin> set l \<Longrightarrow> second_field (manifest_line (p, l)) = l @ [LF]"
proof -
  assume p: "SP \<notin> set p" and l: "SP \<notin> set l"
  have "SP \<notin> set (l @ [LF])" using l by simp
  then have "takeWhile (\<lambda>c. c \<noteq> SP) (l @ [LF]) = l @ [LF]" by (rule takeWhile_no_sep)
  with dropWhile_no_sep [OF p, of "l @ [LF]"] show ?thesis
    by (simp add: second_field_def manifest_line_def)
qed

lemma py_isspace_LF: "py_isspace LF"
  by (simp add: py_isspace_def)

lemma py_strip_newline: "py_strip (l @ [LF]) = py_strip l"
proof (cases "\<forall>c \<in> set l. py_isspace c")
  case True
  then have d: "dropWhile py_isspace l = []" by simp
  have e: "dropWhile py_isspace (l @ [LF]) = []" using True by (simp add: py_isspace_LF)
  show ?thesis unfolding py_strip_def d e by simp
next
  case False
  then have "dropWhile py_isspace (l @ [LF]) = dropWhile py_isspace l @ [LF]"
    by (auto simp: dropWhile_append)
  then show ?thesis by (simp add: py_strip_def py_isspace_LF)
qed

lemma read_lines_manifest:
  assumes "\<forall>s \<in> set xs. plain_path (fst s) \<and> plain_label (snd s)"
  shows "read_lines (concat (map manifest_line xs)) = map manifest_line xs"
proof -
  have "CR \<notin> set (concat (map manifest_line xs))"
    using assms by (auto simp: manifest_line_def plain_path_def plain_label_def)
  then have "universal_newlines (concat (map manifest_line xs)) = concat (map manifest_line xs)"
    by (rule universal_newlines_id)
  moreover have "\<forall>s \<in> set xs. LF \<notin> set (fst s) \<and> LF \<notin> set (snd s)"
    using assms by (simp add: plain_path_def plain_label_def)
  ultimately show ?thesis by (simp add: read_lines_def file_lines_manifest)
qed

lemma fields_of_manifest_line:
  assumes "plain_path p" and "plain_label l"
  shows "SP \<in> set (manifest_line (p, l))"
    and "first_field (manifest_line (p, l)) = p"
    and "py_strip (second_field (manifest_line (p, l))) = l"
proof -
  show "SP \<in> set (manifest_line (p, l))" by (simp add: manifest_line_def)
  show "first_field (manifest_line (p, l)) = p"
    using assms by (simp add: first_field_manifest_line plain_path_def)
  have "second_field (manifest_line (p, l)) = l @ [LF]"
    using assms by (simp add: second_field_manifest_line plain_path_def plain_label_def)
  then show "py_strip (second_field (manifest_line (p, l))) = l"
    using assms by (simp add: py_strip_newline plain_label_def)
qed

lemma read_manifest_of_manifest_lines:
  assumes "\<forall>s \<in> set xs. plain_path (fst s) \<and> plain_label (snd s)"
  shows "read_manifest (map manifest_line xs) ([], []) = Inr (map fst xs, map snd xs)"
proof -
  have a: "\<forall>l \<in> set (map manifest_line xs). SP \<in> set l"
    using assms fields_of_manifest_line(1) by (metis (no_types, lifting) imageE list.set_map prod.collapse)
  have b: "map first_field (map manifest_line xs) = map fst xs"
    using assms fields_of_manifest_line(2) by (simp, metis prod.collapse)
  have c: "map (\<lambda>l. py_strip (second_field l)) (map manifest_line xs) = map snd xs"
    using assms fields_of_manifest_line(3) by (simp, metis prod.collapse)
  show ?thesis unfolding read_manifest_eq using a b c by simp
qed

lemma open_w_train_set: "open_w dir_exists ''train_set.txt'' = None"
  by (simp add: open_w_def base_name_def parent_dir_def)



lemma save_file_paths_opened:
  "open_w dir_exists file_path = None \<Longrightarrow>
   save_file_paths dir_exists fs file_paths labs file_path
     = (Inr (), fs(file_path \<mapsto> concat (map manifest_line (zip file_paths labs))))"
  by (simp add: save_file_paths_def write_samples_eq)

text \<open>
  C9, as the specification states it, fails: a single sample whose label contains a newline
  is written as two lines, the second of which is not of the form \<open>path, space, label\<close>.
\<close>

theorem save_file_paths_newline_in_label:
  "save_file_paths no_dirs example_fs [''a''] [''b'' @ [LF] @ ''c''] ''f.txt''
     = (Inr (), example_fs(''f.txt'' \<mapsto> ''a b'' @ [LF] @ ''c'' @ [LF]))
   \<and> file_lines (''a b'' @ [LF] @ ''c'' @ [LF]) = [''a b'' @ [LF], ''c'' @ [LF]]
   \<and> length (zip [''a''] [''b'' @ [LF] @ ''c'']) = 1
   \<and> length (file_lines (''a b'' @ [LF] @ ''c'' @ [LF])) = 2"
  by (simp add: save_file_paths_def open_w_def base_name_def parent_dir_def)

text \<open>
  C9 (amended): when the target can be opened for writing, \<open>save_file_paths\<close> leaves in it
  exactly the text \<open>path, space, label, newline\<close> of each sample, one after the other in
  the order given, whatever the file held before (nothing is appended), and changes no other
  file; when no path and no label contains a newline, these are the lines of the file, one
  per sample. When the target cannot be opened, which is the case exactly for a name without
  a last component and for a missing directory, the call fails and the file system stays
  as it was.
\<close>

theorem save_file_paths_content:
  "(open_w dir_exists file_path = None \<longrightarrow>
      save_file_paths dir_exists fs file_paths labs file_path
        = (Inr (), fs(file_path \<mapsto> concat (map manifest_line (zip file_paths labs))))
      \<and> snd (save_file_paths dir_exists (fs(file_path \<mapsto> old)) file_paths labs file_path)
        = snd (save_file_paths dir_exists fs file_paths labs file_path))
   \<and> (open_w dir_exists file_path = None
        \<and> (\<forall>s \<in> set (zip file_paths labs). LF \<notin> set (fst s) \<and> LF \<notin> set (snd s)) \<longrightarrow>
      file_lines (the (snd (save_file_paths dir_exists fs file_paths labs file_path) file_path))
        = map manifest_line (zip file_paths labs))
   \<and> (open_w dir_exists file_path \<noteq> None \<longrightarrow>
      save_file_paths dir_exists fs file_paths labs file_path = (Inl (OSError file_path), fs))
   \<and> (open_w dir_exists file_path \<noteq> None \<longleftrightarrow>
      base_name file_path = [] \<or> (parent_dir file_path \<noteq> [] \<and> \<not> dir_exists (parent_dir file_path)))"
proof -
  have "open_w dir_exists file_path \<noteq> None \<Longrightarrow>
        save_file_paths dir_exists fs file_paths labs file_path = (Inl (OSError file_path), fs)"
    by (auto simp: save_file_paths_def open_w_def split: if_splits)
  moreover have "open_w dir_exists file_path \<noteq> None \<longleftrightarrow>
      base_name file_path = [] \<or> (parent_dir file_path \<noteq> [] \<and> \<not> dir_exists (parent_dir file_path))"
    by (simp add: open_w_def)
  ultimately show ?thesis
    by (simp add: save_file_paths_opened file_lines_manifest)
qed

theorem save_file_paths_content_witness:
  "save_file_paths no_dirs [''f.txt'' \<mapsto> ''old text''] [''a.png'', ''b.png''] [''cat'', ''dog''] ''f.txt''
     = (Inr (), [''f.txt'' \<mapsto> ''a.png cat'' @ [LF] @ ''b.png dog'' @ [LF]])
   \<and> file_lines (the (snd (save_file_paths no_dirs [''f.txt'' \<mapsto> ''old text'']
                             [''a.png'', ''b.png''] [''cat'', ''dog''] ''f.txt'') ''f.txt''))
       = [''a.png cat'' @ [LF], ''b.png dog'' @ [LF]]
   \<and> save_file_paths no_dirs [''f.txt'' \<mapsto> ''old text''] [''a.png''] [''cat''] ''nodir/f.txt''
     = (Inl (OSError ''nodir/f.txt''), [''f.txt'' \<mapsto> ''old text''])
   \<and> save_file_paths no_dirs [''f.txt'' \<mapsto> ''old text''] [''a.png''] [''cat''] []
     = (Inl (OSError []), [''f.txt'' \<mapsto> ''old text''])"
proof -
  have o: "open_w no_dirs ''f.txt'' = None"
          "open_w no_dirs ''nodir/f.txt'' \<noteq> None" "open_w no_dirs [] \<noteq> None"
    by (simp_all add: open_w_def base_name_def parent_dir_def no_dirs_def)
  from save_file_paths_content [of no_dirs "''f.txt''" "[''f.txt'' \<mapsto> ''old text'']"
         "[''a.png'', ''b.png'']" "[''cat'', ''dog'']" "''old text''"]
       save_file_paths_content [of no_dirs "''nodir/f.txt''" "[''f.txt'' \<mapsto> ''old text'']"
         "[''a.png'']" "[''cat'']" "''old text''"]
       save_file_paths_content [of no_dirs "[]" "[''f.txt'' \<mapsto> ''old text'']"
         "[''a.png'']" "[''cat'']" "''old text''"]
       o
  show ?thesis by (simp add: manifest_line_def)
qed

text \<open>
  C2, as the specification states it, fails: a sample whose label has no space but ends with a
  tab, written with \<open>save_file_paths\<close> and read back by the constructor, comes back without
  the tab.
\<close>

theorem persist_then_load_trailing_tab:
  "SP \<notin> set ''a'' \<and> SP \<notin> set (''b'' @ [CHR 0x09])
   \<and> fst (save_file_paths no_dirs example_fs [''a''] [''b'' @ [CHR 0x09]] ''train_set.txt'') = Inr ()
   \<and> map_sum id samples_of
        (ImageDataset_init
           (snd (save_file_paths no_dirs example_fs [''a''] [''b'' @ [CHR 0x09]] ''train_set.txt''))
           slot_zero ''Images/'' True (None :: (string \<Rightarrow> string) option))
       = Inr [(''a'', ''b'')]
   \<and> mset [(''a'', ''b'')] \<noteq> mset (zip [''a''] [''b'' @ [CHR 0x09]])"
  by (simp add: ImageDataset_init_def save_file_paths_def open_w_train_set read_lines_def
      parse_line_def py_index_def py_strip_def py_isspace_def samples_of_def)

text \<open>
  C2 (amended): when no path and no label contains a space, a line feed or a carriage return,
  and no label begins or ends with whitespace, writing the samples to \<open>train_set.txt\<close>
  succeeds, and constructing the dataset then gives back the same pairs in the same order
  (so a permutation of them), and as many as were written.
\<close>

theorem persist_then_load_plain:
  fixes transform_arg :: "('img \<Rightarrow> 'tensor) option"
  assumes "\<forall>s \<in> set (zip file_paths labs). plain_path (fst s) \<and> plain_label (snd s)"
  shows "fst (save_file_paths dir_exists fs file_paths labs ''train_set.txt'') = Inr ()
       \<and> (\<exists>ds. ImageDataset_init
                 (snd (save_file_paths dir_exists fs file_paths labs ''train_set.txt''))
                 slot root train_arg transform_arg = Inr ds
            \<and> samples_of ds = zip file_paths labs
            \<and> mset (samples_of ds) = mset (zip file_paths labs)
            \<and> ImageDataset_len ds = int (length (zip file_paths labs)))"
proof -
  let ?xs = "zip file_paths labs"
  have "read_manifest (read_lines (write_samples [] ?xs)) ([], []) = Inr (map fst ?xs, map snd ?xs)"
    using assms by (simp add: write_samples_eq read_lines_manifest read_manifest_of_manifest_lines)
  then show ?thesis
    by (simp add: ImageDataset_init_def save_file_paths_def open_w_train_set samples_of_def
        ImageDataset_len_def zip_map_fst_snd)
qed

theorem persist_then_load_plain_witness:
  "plain_path ''i/a.png'' \<and> plain_label ''cat'' \<and> plain_path ''i/b.png'' \<and> plain_label ''dog''
   \<and> map_sum id samples_of
        (ImageDataset_init
           (snd (save_file_paths no_dirs example_fs [''i/a.png'', ''i/b.png''] [''cat'', ''dog'']
                   ''train_set.txt''))
           slot_zero ''Images/'' True (None :: (string \<Rightarrow> string) option))
       = Inr [(''i/a.png'', ''cat''), (''i/b.png'', ''dog'')]
   \<and> map_sum id ImageDataset_len
        (ImageDataset_init
           (snd (save_file_paths no_dirs example_fs [''i/a.png'', ''i/b.png''] [''cat'', ''dog'']
                   ''train_set.txt''))
           slot_zero ''Images/'' True (None :: (string \<Rightarrow> string) option))
       = Inr 2"
proof -
  have h: "\<forall>s \<in> set (zip [''i/a.png'', ''i/b.png''] [''cat'', ''dog'']).
       plain_path (fst s) \<and> plain_label (snd s)"
    by (simp add: plain_path_def plain_label_def py_strip_def py_isspace_def)
  from persist_then_load_plain [OF h, of no_dirs example_fs slot_zero "''Images/''" True
      "None :: (string \<Rightarrow> string) option"] h
  show ?thesis by auto
qed

section \<open>The constructor arguments that are not used\<close>

text \<open>
  C10: the sample arrays and the label index of the constructed dataset (or the failure) are
  the same for any two values of \<open>root_dir\<close> and of \<open>train\<close>; the constructor reads no file
  but \<open>train_set.txt\<close>, which is the value of \<open>training_file\<close> in every dataset.
\<close>

theorem init_ignores_root_dir_and_train:
  fixes transform_arg :: "('img \<Rightarrow> 'tensor) option"
  shows "map_sum id (\<lambda>ds. (image_filenames ds, labels ds, class_to_idx ds))
           (ImageDataset_init fs slot root1 train1 transform_arg)
       = map_sum id (\<lambda>ds. (image_filenames ds, labels ds, class_to_idx ds))
           (ImageDataset_init fs slot root2 train2 transform_arg)
     \<and> ImageDataset_init (fs |` {''train_set.txt''}) slot root1 train1 transform_arg
       = ImageDataset_init fs slot root1 train1 transform_arg
     \<and> map_sum id training_file (ImageDataset_init fs slot root1 train1 transform_arg)
       = map_sum id (\<lambda>_. ''train_set.txt'') (ImageDataset_init fs slot root1 train1 transform_arg)"
  by (simp add: ImageDataset_init_def Let_def split: option.splits sum.splits prod.splits)

section \<open>The label index\<close>

lemma update_fresh: "k \<notin> fst ` set d \<Longrightarrow> AList.update k v d = d @ [(k, v)]"
  by (induction d) auto

lemma fold_update_enumerate:
  "distinct xs \<Longrightarrow> set xs \<inter> fst ` set d = {} \<Longrightarrow>
   fold (\<lambda>(idx, class_name) d. AList.update class_name idx d) (enumerate n xs) d
     = d @ zip xs [n ..< n + length xs]"
proof (induction xs arbitrary: n d)
  case Nil
  show ?case by simp
next
  case (Cons x xs)
  have fresh: "x \<notin> fst ` set d" using Cons.prems by auto
  have disj: "set xs \<inter> fst ` set (d @ [(x, n)]) = {}" using Cons.prems by auto
  have dist: "distinct xs" using Cons.prems by simp
  have "fold (\<lambda>(idx, class_name) d. AList.update class_name idx d) (enumerate n (x # xs)) d
      = fold (\<lambda>(idx, class_name) d. AList.update class_name idx d) (enumerate (Suc n) xs)
          (d @ [(x, n)])"
    by (simp add: update_fresh [OF fresh])
  also have "\<dots> = (d @ [(x, n)]) @ zip xs [Suc n ..< Suc n + length xs]"
    by (rule Cons.IH [OF dist disj])
  also have "\<dots> = d @ zip (x # xs) [n ..< n + length (x # xs)]"
    by (simp add: upt_conv_Cons del: upt_Suc)
  finally show ?case .
qed

lemma py_list_of_set_distinct: "distinct (py_list_of_set slot xs)"
  by (simp add: py_list_of_set_def)

lemma py_list_of_set_set: "set (py_list_of_set slot xs) = set xs"
  by (simp add: py_list_of_set_def)

lemma py_list_of_set_length: "length (py_list_of_set slot xs) = card (set xs)"
  by (simp add: py_list_of_set_def length_remdups_card_conv)

lemma convert_label_to_ix_eq:
  "convert_label_to_ix slot label_list
     = zip (py_list_of_set slot label_list) [0 ..< length (py_list_of_set slot label_list)]"
  using fold_update_enumerate [OF py_list_of_set_distinct, of slot label_list "[]" 0]
  by (simp add: convert_label_to_ix_def)

lemma convert_label_to_ix_keys: "map fst (convert_label_to_ix slot label_list) = py_list_of_set slot label_list"
  by (simp add: convert_label_to_ix_eq)

lemma convert_label_to_ix_values:
  "map snd (convert_label_to_ix slot label_list) = [0 ..< length (convert_label_to_ix slot label_list)]"
  by (simp add: convert_label_to_ix_eq)

lemma convert_label_to_ix_length: "length (convert_label_to_ix slot label_list) = card (set label_list)"
  by (simp add: convert_label_to_ix_eq py_list_of_set_length)

lemma map_of_zip_upt_nth:
  "distinct xs \<Longrightarrow> i < length xs \<Longrightarrow> map_of (zip xs [0 ..< length xs]) (xs ! i) = Some i"
  by (metis (no_types, lifting) add_0 diff_zero length_upt map_of_zip_nth nth_upt)

lemma convert_label_to_ix_bij:
  "bij_betw (\<lambda>l. the (map_of (convert_label_to_ix slot label_list) l)) (set label_list)
     {0 ..< length (convert_label_to_ix slot label_list)}"
proof -
  let ?cs = "py_list_of_set slot label_list"
  let ?n = "length ?cs"
  let ?f = "\<lambda>l. the (map_of (zip ?cs [0 ..< ?n]) l)"
  have d: "distinct ?cs" by (rule py_list_of_set_distinct)
  have nth: "\<And>i. i < ?n \<Longrightarrow> ?f (?cs ! i) = i"
    using map_of_zip_upt_nth [OF d] by simp
  have "bij_betw ?f (set ?cs) {0 ..< ?n}"
  proof (rule bij_betwI')
    fix x y assume "x \<in> set ?cs" "y \<in> set ?cs"
    then obtain i j where i: "i < ?n" "x = ?cs ! i" and j: "j < ?n" "y = ?cs ! j"
      by (metis in_set_conv_nth)
    have "?f x = i" "?f y = j" using i j nth by simp_all
    moreover have "(x = y) = (i = j)" using i j nth_eq_iff_index_eq [OF d] by simp
    ultimately show "(?f x = ?f y) = (x = y)" by simp
  next
    fix x assume "x \<in> set ?cs"
    then obtain i where "i < ?n" "x = ?cs ! i" by (metis in_set_conv_nth)
    then show "?f x \<in> {0 ..< ?n}" using nth by simp
  next
    fix y assume "y \<in> {0 ..< ?n}"
    then have "y < ?n" by simp
    then have "?cs ! y \<in> set ?cs" "y = ?f (?cs ! y)" using nth by simp_all
    then show "\<exists>x \<in> set ?cs. y = ?f x" by blast
  qed
  then show ?thesis by (simp add: convert_label_to_ix_eq py_list_of_set_set)
qed

lemma sorted_order_is_sort:
  "sorted (py_list_of_set slot label_list) \<Longrightarrow> py_list_of_set slot label_list = sort (remdups label_list)"
  by (rule sorted_distinct_set_unique) (simp_all add: py_list_of_set_distinct py_list_of_set_set)

lemma convert_label_to_ix_lookup:
  assumes "i < length (py_list_of_set slot label_list)"
  shows "map_of (convert_label_to_ix slot label_list) (py_list_of_set slot label_list ! i) = Some i"
  using assms map_of_zip_upt_nth [OF py_list_of_set_distinct, of i slot label_list]
  by (simp add: convert_label_to_ix_eq)

lemma convert_label_to_ix_slot_order:
  assumes a: "a \<in> set label_list" and b: "b \<in> set label_list" and lt: "slot a < slot b"
  shows "the (map_of (convert_label_to_ix slot label_list) a)
           < the (map_of (convert_label_to_ix slot label_list) b)"
proof -
  let ?cs = "py_list_of_set slot label_list"
  from a b obtain i j where i: "i < length ?cs" "?cs ! i = a" and j: "j < length ?cs" "?cs ! j = b"
    by (metis in_set_conv_nth py_list_of_set_set)
  have s: "sorted (map slot ?cs)" by (simp add: py_list_of_set_def)
  have "i < j"
  proof (rule ccontr)
    assume "\<not> i < j"
    then have "j \<le> i" by simp
    with s i have "map slot ?cs ! j \<le> map slot ?cs ! i"
      by (simp add: sorted_nth_mono del: nth_map)
    with i j lt show False by simp
  qed
  moreover have "map_of (convert_label_to_ix slot label_list) a = Some i"
    using convert_label_to_ix_lookup [OF i(1)] i(2) by simp
  moreover have "map_of (convert_label_to_ix slot label_list) b = Some j"
    using convert_label_to_ix_lookup [OF j(1)] j(2) by simp
  ultimately show ?thesis by simp
qed

lemma equal_index_is_sorted:
  assumes "convert_label_to_ix slot label_list = spec_sorted_label_index label_list"
  shows "sorted (py_list_of_set slot label_list)"
proof -
  have "map fst (convert_label_to_ix slot label_list) = map fst (spec_sorted_label_index label_list)"
    using assms by simp
  then have "py_list_of_set slot label_list = sort (remdups label_list)"
    by (simp add: convert_label_to_ix_keys spec_sorted_label_index_def Let_def)
  then show ?thesis by simp
qed

lemma getitem_dataset_unchanged:
  "dataset (snd (ImageDataset_getitem env w index)) = dataset w"
  by (simp add: ImageDataset_getitem_def Let_def split: sum.splits option.splits)

text \<open>
  C4, as the specification states it, fails: \<open>convert_label_to_ix\<close> does not sort. With the
  labels \<open>a\<close> and \<open>b\<close>, a set that yields \<open>b\<close> first gives \<open>b\<close> the index 0, where the sorted
  assignment gives 0 to \<open>a\<close>; another layout of the set gives another index.
\<close>

theorem label_index_not_sorted:
  "convert_label_to_ix slot_reversed [''a'', ''b''] = [(''b'', 0), (''a'', 1)]
   \<and> spec_sorted_label_index [''a'', ''b''] = [(''a'', 0), (''b'', 1)]
   \<and> convert_label_to_ix slot_zero [''a'', ''b''] = [(''a'', 0), (''b'', 1)]
   \<and> map_of (convert_label_to_ix slot_reversed [''a'', ''b'']) ''a''
       \<noteq> map_of (spec_sorted_label_index [''a'', ''b'']) ''a''
   \<and> convert_label_to_ix slot_reversed [''a'', ''b''] \<noteq> convert_label_to_ix slot_zero [''a'', ''b'']"
  by (simp add: convert_label_to_ix_def py_list_of_set_def slot_reversed_def slot_zero_def
      spec_sorted_label_index_def enumerate_eq_zip less_eq_char_def less_char_def)

text \<open>
  C4 (amended): the label index numbers the distinct labels from 0 in the order in which the
  set of labels yields them, each distinct label once. The code does not sort: a label in a
  lower slot of the set gets the lower index, whatever the labels are, and the index is
  the lexicographic one exactly when the set happens to yield the labels sorted.
\<close>

theorem label_index_follows_set_order:
  "convert_label_to_ix slot label_list
       = zip (py_list_of_set slot label_list) [0 ..< card (set label_list)]
   \<and> distinct (py_list_of_set slot label_list)
   \<and> set (py_list_of_set slot label_list) = set label_list
   \<and> (\<forall>a \<in> set label_list. \<forall>b \<in> set label_list. slot a < slot b \<longrightarrow>
         the (map_of (convert_label_to_ix slot label_list) a)
           < the (map_of (convert_label_to_ix slot label_list) b))
   \<and> (convert_label_to_ix slot label_list = spec_sorted_label_index label_list
        \<longleftrightarrow> sorted (py_list_of_set slot label_list))"
proof -
  have "sorted (py_list_of_set slot label_list)
        \<Longrightarrow> convert_label_to_ix slot label_list = spec_sorted_label_index label_list"
    using sorted_order_is_sort [of slot label_list]
    by (simp add: convert_label_to_ix_eq spec_sorted_label_index_def)
  then have "convert_label_to_ix slot label_list = spec_sorted_label_index label_list
        \<longleftrightarrow> sorted (py_list_of_set slot label_list)"
    using equal_index_is_sorted [of slot label_list] by blast
  moreover have "convert_label_to_ix slot label_list
       = zip (py_list_of_set slot label_list) [0 ..< card (set label_list)]"
    using convert_label_to_ix_eq [of slot label_list] by (simp add: py_list_of_set_length)
  ultimately show ?thesis
    using convert_label_to_ix_slot_order [of _ label_list _ slot]
    by (simp add: py_list_of_set_distinct py_list_of_set_set)
qed

theorem label_index_follows_set_order_witness:
  "sorted (py_list_of_set slot_first_char [''dog'', ''cat'', ''dog''])
   \<and> convert_label_to_ix slot_first_char [''dog'', ''cat'', ''dog'']
       = spec_sorted_label_index [''dog'', ''cat'', ''dog'']
   \<and> slot_first_char ''cat'' < slot_first_char ''dog''
   \<and> the (map_of (convert_label_to_ix slot_first_char [''dog'', ''cat'', ''dog'']) ''cat'')
       < the (map_of (convert_label_to_ix slot_first_char [''dog'', ''cat'', ''dog'']) ''dog'')
   \<and> \<not> sorted (py_list_of_set slot_reversed [''a'', ''b''])
   \<and> convert_label_to_ix slot_reversed [''a'', ''b''] \<noteq> spec_sorted_label_index [''a'', ''b'']"
proof -
  have o: "py_list_of_set slot_first_char [''dog'', ''cat'', ''dog''] = [''cat'', ''dog'']"
    by (simp add: py_list_of_set_def slot_first_char_def)
  have s: "sorted (py_list_of_set slot_first_char [''dog'', ''cat'', ''dog''])"
    unfolding o by (simp add: less_eq_char_def less_char_def)
  have r: "py_list_of_set slot_reversed [''a'', ''b''] = [''b'', ''a'']"
    by (simp add: py_list_of_set_def slot_reversed_def)
  have n: "\<not> sorted (py_list_of_set slot_reversed [''a'', ''b''])"
    unfolding r by (simp add: less_eq_char_def less_char_def)
  have l: "slot_first_char ''cat'' < slot_first_char ''dog''"
    by (simp add: slot_first_char_def)
  note A = label_index_follows_set_order [of slot_first_char "[''dog'', ''cat'', ''dog'']"]
  note B = label_index_follows_set_order [of slot_reversed "[''a'', ''b'']"]
  from A s have e: "convert_label_to_ix slot_first_char [''dog'', ''cat'', ''dog'']
       = spec_sorted_label_index [''dog'', ''cat'', ''dog'']"
    by blast
  from A have "\<forall>a \<in> set [''dog'', ''cat'', ''dog'']. \<forall>b \<in> set [''dog'', ''cat'', ''dog''].
         slot_first_char a < slot_first_char b \<longrightarrow>
         the (map_of (convert_label_to_ix slot_first_char [''dog'', ''cat'', ''dog'']) a)
           < the (map_of (convert_label_to_ix slot_first_char [''dog'', ''cat'', ''dog'']) b)"
    by blast
  with l have c: "the (map_of (convert_label_to_ix slot_first_char [''dog'', ''cat'', ''dog'']) ''cat'')
       < the (map_of (convert_label_to_ix slot_first_char [''dog'', ''cat'', ''dog'']) ''dog'')"
    by simp
  from B n have d: "convert_label_to_ix slot_reversed [''a'', ''b''] \<noteq> spec_sorted_label_index [''a'', ''b'']"
    by blast
  from s e l c n d show ?thesis by blast
qed

text \<open>
  C8: in a dataset constructed from a manifest, the labels are those parsed from the lines of
  the manifest, every distinct one of them has exactly one entry in \<open>class_to_idx\<close>, and the
  indices are \<open>0, 1, ..., num_classes - 1\<close> in this order: the lookup is a bijection from the
  distinct labels of the manifest onto that range, with \<open>num_classes\<close> their number. A call
  of \<open>__getitem__\<close> leaves the dataset, and so the index, as it was.
\<close>

theorem label_index_bijection:
  fixes transform_arg :: "('img \<Rightarrow> 'tensor) option"
  assumes "ImageDataset_init fs slot root train_arg transform_arg = Inr ds"
      and "fs ''train_set.txt'' = Some text"
  shows "labels ds = manifest_labels text
       \<and> distinct (map fst (class_to_idx ds))
       \<and> set (map fst (class_to_idx ds)) = set (manifest_labels text)
       \<and> map snd (class_to_idx ds) = [0 ..< length (class_to_idx ds)]
       \<and> length (class_to_idx ds) = card (set (manifest_labels text))
       \<and> bij_betw (\<lambda>l. the (map_of (class_to_idx ds) l)) (set (manifest_labels text))
            {0 ..< length (class_to_idx ds)}
       \<and> dataset (snd (ImageDataset_getitem env \<lparr>dataset = ds, opened = io\<rparr> index)) = ds"
proof -
  note m = init_Inr_manifest [OF assms]
  have c: "class_to_idx ds = convert_label_to_ix slot (manifest_labels text)" by (rule m(3))
  have "distinct (map fst (class_to_idx ds))"
    unfolding c convert_label_to_ix_keys by (rule py_list_of_set_distinct)
  moreover have "set (map fst (class_to_idx ds)) = set (manifest_labels text)"
    unfolding c convert_label_to_ix_keys by (rule py_list_of_set_set)
  moreover have "map snd (class_to_idx ds) = [0 ..< length (class_to_idx ds)]"
    unfolding c by (rule convert_label_to_ix_values)
  moreover have "length (class_to_idx ds) = card (set (manifest_labels text))"
    unfolding c by (rule convert_label_to_ix_length)
  moreover have "bij_betw (\<lambda>l. the (map_of (class_to_idx ds) l)) (set (manifest_labels text))
            {0 ..< length (class_to_idx ds)}"
    unfolding c by (rule convert_label_to_ix_bij)
  moreover have "dataset (snd (ImageDataset_getitem env \<lparr>dataset = ds, opened = io\<rparr> index)) = ds"
    by (simp add: getitem_dataset_unchanged)
  ultimately show ?thesis using m(2) by blast
qed

theorem label_index_bijection_witness:
  "ImageDataset_init example_fs slot_zero ''Images/'' True None = Inr example_dataset
   \<and> example_fs ''train_set.txt'' = Some (''a.png cat'' @ [LF] @ ''b.png dog'' @ [LF])
   \<and> class_to_idx example_dataset = [(''cat'', 0), (''dog'', 1)]
   \<and> bij_betw (\<lambda>l. the (map_of (class_to_idx example_dataset) l)) {''cat'', ''dog''} {0 ..< 2}
   \<and> dataset (snd (ImageDataset_getitem example_collaborators
                      \<lparr>dataset = example_dataset, opened = []\<rparr> 0)) = example_dataset"
proof -
  have c: "class_to_idx example_dataset = [(''cat'', 0), (''dog'', 1)]"
    by (simp add: example_dataset_def)
  have n: "length (class_to_idx example_dataset) = 2" unfolding c by simp
  from label_index_bijection [of example_fs slot_zero "''Images/''" True None example_dataset
      "''a.png cat'' @ [LF] @ ''b.png dog'' @ [LF]" example_collaborators "[]" 0,
      OF example_init example_manifest]
  have "bij_betw (\<lambda>l. the (map_of (class_to_idx example_dataset) l))
          (set (manifest_labels (''a.png cat'' @ [LF] @ ''b.png dog'' @ [LF])))
          {0 ..< length (class_to_idx example_dataset)}"
    and "dataset (snd (ImageDataset_getitem example_collaborators
                      \<lparr>dataset = example_dataset, opened = []\<rparr> 0)) = example_dataset"
    by blast+
  then show ?thesis
    unfolding example_manifest_labels n using example_init example_manifest c by simp
qed

section \<open>Reading one sample\<close>

lemma getitem_out_of_range:
  assumes "int (length (image_filenames (dataset w))) \<le> index
           \<or> index < - int (length (image_filenames (dataset w)))"
  shows "ImageDataset_getitem env w index = (Inl IndexError, w)"
  using assms by (auto simp: ImageDataset_getitem_def py_index_def)

lemma py_index_negative:
  "- int (length xs) \<le> i \<Longrightarrow> i < 0 \<Longrightarrow> py_index xs i = py_index xs (int (length xs) + i)"
  by (simp add: py_index_def)

lemma getitem_negative:
  assumes "length (image_filenames (dataset w)) = length (labels (dataset w))"
      and "- int (length (labels (dataset w))) \<le> index" and "index < 0"
  shows "ImageDataset_getitem env w index
           = ImageDataset_getitem env w (int (length (labels (dataset w))) + index)"
proof -
  have a: "py_index (image_filenames (dataset w)) index
             = py_index (image_filenames (dataset w)) (int (length (labels (dataset w))) + index)"
    using assms py_index_negative [of "image_filenames (dataset w)" index] by simp
  have b: "py_index (labels (dataset w)) index
             = py_index (labels (dataset w)) (int (length (labels (dataset w))) + index)"
    using assms py_index_negative [of "labels (dataset w)" index] by simp
  show ?thesis unfolding ImageDataset_getitem_def Let_def a b by (rule refl)
qed

text \<open>
  C5, as the specification states it, fails: on a dataset of two samples the index \<open>-1\<close> is
  outside \<open>0 .. 1\<close>, yet \<open>__getitem__\<close> opens the image of the last sample and returns it.
\<close>

theorem getitem_negative_index_reads:
  "ImageDataset_init example_fs slot_zero ''Images/'' True None = Inr example_dataset
   \<and> ImageDataset_len example_dataset = 2
   \<and> ImageDataset_getitem example_collaborators \<lparr>dataset = example_dataset, opened = []\<rparr> (- 1)
     = (Inr \<lparr>image' = ''b.png'', label = 1, filepath = ''b.png''\<rparr>,
        \<lparr>dataset = example_dataset, opened = [''b.png'']\<rparr>)"
  by (simp add: example_init)
     (simp add: ImageDataset_getitem_def ImageDataset_len_def example_dataset_def
      example_collaborators_def py_index_def dict_getitem_def)

text \<open>
  C5 (amended): for an index that is at least \<open>size()\<close> or below \<open>-size()\<close>, \<open>__getitem__\<close>
  fails with \<open>IndexError\<close> and opens no image. An index from \<open>-size()\<close> to \<open>-1\<close> is not an
  error: it does what the index \<open>size() + index\<close> does.
\<close>

theorem getitem_index_error:
  fixes transform_arg :: "('img \<Rightarrow> 'tensor) option"
  assumes "ImageDataset_init fs slot root train_arg transform_arg = Inr ds"
  shows "(ImageDataset_len ds \<le> index \<or> index < - ImageDataset_len ds \<longrightarrow>
            ImageDataset_getitem env \<lparr>dataset = ds, opened = io\<rparr> index
              = (Inl IndexError, \<lparr>dataset = ds, opened = io\<rparr>))
       \<and> (- ImageDataset_len ds \<le> index \<and> index < 0 \<longrightarrow>
            ImageDataset_getitem env \<lparr>dataset = ds, opened = io\<rparr> index
              = ImageDataset_getitem env \<lparr>dataset = ds, opened = io\<rparr> (ImageDataset_len ds + index))"
proof -
  have l: "length (image_filenames ds) = length (labels ds)" by (rule init_lengths [OF assms])
  show ?thesis
    using l getitem_out_of_range [of "\<lparr>dataset = ds, opened = io\<rparr>" index env]
      getitem_negative [of "\<lparr>dataset = ds, opened = io\<rparr>" index env]
    by (simp add: ImageDataset_len_def)
qed

theorem getitem_index_error_witness:
  "ImageDataset_getitem example_collaborators \<lparr>dataset = example_dataset, opened = []\<rparr> 2
     = (Inl IndexError, \<lparr>dataset = example_dataset, opened = []\<rparr>)
   \<and> ImageDataset_getitem example_collaborators \<lparr>dataset = example_dataset, opened = []\<rparr> (- 3)
     = (Inl IndexError, \<lparr>dataset = example_dataset, opened = []\<rparr>)
   \<and> ImageDataset_getitem example_collaborators \<lparr>dataset = example_dataset, opened = []\<rparr> (- 1)
     = ImageDataset_getitem example_collaborators \<lparr>dataset = example_dataset, opened = []\<rparr> 1"
proof -
  have n: "ImageDataset_len example_dataset = 2"
    by (simp add: ImageDataset_len_def example_dataset_def)
  from getitem_index_error [OF example_init, of 2 example_collaborators "[]"]
       getitem_index_error [OF example_init, of "- 3" example_collaborators "[]"]
       getitem_index_error [OF example_init, of "- 1" example_collaborators "[]"]
  show ?thesis unfolding n by simp
qed

text \<open>
  C6: for a valid index \<open>i\<close>, the label parsed from line \<open>i\<close> of the manifest has an entry in
  \<open>class_to_idx\<close>, the one the label index built from the labels of the manifest gives it,
  and \<open>__getitem__\<close> opens the path parsed from line \<open>i\<close>: when the image cannot be opened
  the call fails with that error, and otherwise it returns the sample whose label is that
  entry and whose file path is that path.
\<close>

theorem getitem_valid_index:
  fixes transform_arg :: "('img \<Rightarrow> 'tensor) option"
  assumes init: "ImageDataset_init fs slot root train_arg transform_arg = Inr ds"
      and manifest: "fs ''train_set.txt'' = Some text"
      and lo: "0 \<le> index" and hi: "index < ImageDataset_len ds"
  shows "\<exists>ix. map_of (class_to_idx ds) (manifest_labels text ! nat index) = Some ix
            \<and> map_of (convert_label_to_ix slot (manifest_labels text))
                 (manifest_labels text ! nat index) = Some ix
            \<and> ImageDataset_getitem env \<lparr>dataset = ds, opened = io\<rparr> index
                = (case image_open env (manifest_paths text ! nat index) of
                     Inl e \<Rightarrow> Inl e
                   | Inr img \<Rightarrow>
                       Inr \<lparr> image' = (case transform_arg of Some t \<Rightarrow> t img
                                                            | None \<Rightarrow> to_tensor env img),
                             label = ix,
                             filepath = manifest_paths text ! nat index \<rparr>,
                   \<lparr>dataset = ds, opened = io @ [manifest_paths text ! nat index]\<rparr>)"
proof -
  let ?i = "nat index"
  note m = init_Inr_manifest [OF init manifest]
  have i: "?i < length (manifest_labels text)" "?i < length (manifest_paths text)"
    using lo hi m(2) by (simp_all add: ImageDataset_len_def manifest_labels_def manifest_paths_def)
  have pf: "py_index (image_filenames ds) index = Inr (manifest_paths text ! ?i)"
    using lo i m(1) by (simp add: py_index_def)
  have pl: "py_index (labels ds) index = Inr (manifest_labels text ! ?i)"
    using lo i m(2) by (simp add: py_index_def)
  have "manifest_labels text ! ?i \<in> set (manifest_labels text)" using i by simp
  then have "manifest_labels text ! ?i \<in> fst ` set (class_to_idx ds)"
    using convert_label_to_ix_keys [of slot "manifest_labels text"]
      py_list_of_set_set [of slot "manifest_labels text"]
    unfolding m(3) by (metis list.set_map)
  then obtain ix where ix: "map_of (class_to_idx ds) (manifest_labels text ! ?i) = Some ix"
    by (metis not_None_eq map_of_eq_None_iff)
  then have dg: "dict_getitem (class_to_idx ds) (manifest_labels text ! ?i) = Inr ix"
    by (simp add: dict_getitem_def)
  have "ImageDataset_getitem env \<lparr>dataset = ds, opened = io\<rparr> index
                = (case image_open env (manifest_paths text ! ?i) of
                     Inl e \<Rightarrow> Inl e
                   | Inr img \<Rightarrow>
                       Inr \<lparr> image' = (case transform_arg of Some t \<Rightarrow> t img
                                                            | None \<Rightarrow> to_tensor env img),
                             label = ix,
                             filepath = manifest_paths text ! ?i \<rparr>,
                   \<lparr>dataset = ds, opened = io @ [manifest_paths text ! ?i]\<rparr>)"
    by (simp add: ImageDataset_getitem_def pf pl dg m(4) split: sum.splits)
  with ix m(3) show ?thesis by auto
qed

theorem getitem_valid_index_witness:
  "ImageDataset_getitem example_collaborators \<lparr>dataset = example_dataset, opened = []\<rparr> 0
     = (Inr \<lparr>image' = ''a.png'', label = 0, filepath = ''a.png''\<rparr>,
        \<lparr>dataset = example_dataset, opened = [''a.png'']\<rparr>)
   \<and> map_of (class_to_idx example_dataset) ''cat'' = Some 0
   \<and> map_of (class_to_idx example_dataset) ''dog'' = Some 1
   \<and> parse_line (''a.png cat'' @ [LF]) = Inr (''a.png'', ''cat'')"
proof -
  have len: "(0::int) \<le> 0" "0 < ImageDataset_len example_dataset"
    by (simp_all add: ImageDataset_len_def example_dataset_def)
  have d: "map_of (class_to_idx example_dataset) ''cat'' = Some 0"
          "map_of (class_to_idx example_dataset) ''dog'' = Some 1"
    by (simp_all add: example_dataset_def)
  have p: "parse_line (''a.png cat'' @ [LF]) = Inr (''a.png'', ''cat'')"
    by (simp add: parse_line_def py_index_def py_strip_def py_isspace_def)
  from getitem_valid_index [of example_fs slot_zero "''Images/''" True None example_dataset
      "''a.png cat'' @ [LF] @ ''b.png dog'' @ [LF]" 0 example_collaborators "[]",
      OF example_init example_manifest len]
  obtain ix where
    "map_of (class_to_idx example_dataset) ''cat'' = Some ix"
    "ImageDataset_getitem example_collaborators \<lparr>dataset = example_dataset, opened = []\<rparr> 0
       = (Inr \<lparr>image' = ''a.png'', label = ix, filepath = ''a.png''\<rparr>,
          \<lparr>dataset = example_dataset, opened = [''a.png'']\<rparr>)"
    unfolding example_manifest_labels example_manifest_paths
    by (auto simp: example_collaborators_def)
  with d p show ?thesis by simp
qed

section \<open>Splitting the samples\<close>
















end
